theory Spec2Isabelle
  imports Main "HOL-Library.Word" "HOL-Library.Multiset"
begin

section \<open>Data model\<close>

text \<open>
  The service is one Go file, \<^verbatim>\<open>main.go\<close>. Go's \<^verbatim>\<open>int\<close> is a 64-bit
  two's-complement integer on the 64-bit platforms the program is built for:
  \<^verbatim>\<open>nextID++\<close> wraps around, and \<^verbatim>\<open>strconv.Atoi\<close> rejects numerals
  outside the signed 64-bit range. Identifiers are therefore 64-bit words, read as
  signed numbers with \<open>sint\<close>.
\<close>

type_synonym go_int = "64 word"

text \<open>\<^verbatim>\<open>type Task struct { ID int; Title string; Completed bool }\<close>\<close>

record Task =
  ID :: go_int
  Title :: string
  Completed :: bool

text \<open>
  \<^verbatim>\<open>type TaskStore struct { sync.RWMutex; tasks map[int]Task; nextID int }\<close>

  Every handler touches the store only between \<^verbatim>\<open>Lock\<close> and \<^verbatim>\<open>Unlock\<close>
  (or \<^verbatim>\<open>RLock\<close> and \<^verbatim>\<open>RUnlock\<close>), so each handler's access is one atomic
  transition of the store and a run of the server is a sequence of such transitions.
  The lock itself carries no data and is left out of the record.
\<close>

record TaskStore =
  tasks :: "go_int \<rightharpoonup> Task"
  nextID :: go_int

definition NewTaskStore :: TaskStore where
  "NewTaskStore = \<lparr>tasks = Map.empty, nextID = 1\<rparr>"

subsection \<open>Requests and responses\<close>

text \<open>
  Of a \<^verbatim>\<open>*http.Request\<close> the handlers read \<^verbatim>\<open>r.Method\<close>, \<^verbatim>\<open>r.URL.Path\<close>
  and the result of \<^verbatim>\<open>json.NewDecoder(r.Body).Decode(&task)\<close> into a zero-valued
  \<^verbatim>\<open>Task\<close>. The decoder belongs to the standard library; the request carries the
  outcome of decoding its body: \<open>None\<close> when \<^verbatim>\<open>Decode\<close> returns an error, and
  the decoded struct otherwise.
\<close>

record request =
  Method :: string
  Path :: string
  Body :: "Task option"

definition MethodGet :: string where "MethodGet = ''GET''"
definition MethodPost :: string where "MethodPost = ''POST''"
definition MethodPut :: string where "MethodPut = ''PUT''"
definition MethodDelete :: string where "MethodDelete = ''DELETE''"

definition StatusOK :: nat where "StatusOK = 200"
definition StatusCreated :: nat where "StatusCreated = 201"
definition StatusNoContent :: nat where "StatusNoContent = 204"
definition StatusBadRequest :: nat where "StatusBadRequest = 400"
definition StatusNotFound :: nat where "StatusNotFound = 404"
definition StatusMethodNotAllowed :: nat where "StatusMethodNotAllowed = 405"

text \<open>
  A Go slice is either \<^verbatim>\<open>nil\<close> or a sequence of elements; \<^verbatim>\<open>encoding/json\<close>
  writes the first as \<^verbatim>\<open>null\<close> and the second as an array.
\<close>

datatype 'a slice = NilSlice | Slice "'a list"

definition make_slice :: "'a slice" where
  "make_slice = Slice []"

fun append_slice :: "'a slice \<Rightarrow> 'a \<Rightarrow> 'a slice" where
  "append_slice NilSlice x = Slice [x]"
| "append_slice (Slice xs) x = Slice (xs @ [x])"

text \<open>
  The plain-text messages passed to \<^verbatim>\<open>http.Error\<close> and \<^verbatim>\<open>fmt.Fprintf\<close> are
  Russian sentences; each is named by what it says.
\<close>

datatype message =
    MsgWelcome
  | MsgNotFound
  | MsgMethodNotAllowed
  | MsgBadBody
  | MsgBadID
  | MsgTaskNotFound

datatype payload =
    NoBody
  | Text message
  | JsonTask Task
  | JsonTasks "Task slice"

datatype response = Response (status: nat) (payload: payload)

text \<open>
  A handler either writes a response or panics; \<^verbatim>\<open>net/http\<close> recovers a handler's
  panic, logs it and drops the connection without any status line.
\<close>

datatype outcome = Panic | Resp response

definition http_Error :: "message \<Rightarrow> nat \<Rightarrow> outcome" where
  "http_Error msg code = Resp (Response code (Text msg))"

subsection \<open>JSON written by the encoder\<close>

datatype json =
    JNull
  | JBool bool
  | JInt int
  | JString string
  | JArray "json list"
  | JObject "(string \<times> json) list"

text \<open>The struct tags of \<^verbatim>\<open>Task\<close> name the three members.\<close>

definition json_of_Task :: "Task \<Rightarrow> json" where
  "json_of_Task t =
     JObject [(''id'', JInt (sint (ID t))),
              (''title'', JString (Title t)),
              (''completed'', JBool (Completed t))]"

fun json_of_slice :: "Task slice \<Rightarrow> json" where
  "json_of_slice NilSlice = JNull"
| "json_of_slice (Slice ts) = JArray (map json_of_Task ts)"

fun json_of_payload :: "payload \<Rightarrow> json option" where
  "json_of_payload (JsonTask t) = Some (json_of_Task t)"
| "json_of_payload (JsonTasks ts) = Some (json_of_slice ts)"
| "json_of_payload _ = None"

subsection \<open>String slicing and \<^verbatim>\<open>strconv.Atoi\<close>\<close>

text \<open>
  \<^verbatim>\<open>s[lo:]\<close> and \<^verbatim>\<open>s[lo:hi]\<close> panic unless \<open>0 \<le> lo \<le> hi \<le> len(s)\<close>.
  Indices are Go \<^verbatim>\<open>int\<close>s computed from string lengths, far from the 64-bit
  bounds, so they are plain integers here.
\<close>

definition slice_from :: "string \<Rightarrow> int \<Rightarrow> string option" where
  "slice_from s lo =
     (if 0 \<le> lo \<and> lo \<le> int (length s) then Some (drop (nat lo) s) else None)"

definition slice_range :: "string \<Rightarrow> int \<Rightarrow> int \<Rightarrow> string option" where
  "slice_range s lo hi =
     (if 0 \<le> lo \<and> lo \<le> hi \<and> hi \<le> int (length s)
      then Some (take (nat hi - nat lo) (drop (nat lo) s)) else None)"

text \<open>
  \<^verbatim>\<open>strconv.Atoi\<close> (standard library): an optional sign, then one or more decimal
  digits, and a value that fits \<^verbatim>\<open>int\<close>. \<open>None\<close> stands for a non-nil error
  (syntax or range); the handlers only test \<^verbatim>\<open>err != nil\<close>.
\<close>

definition is_digit :: "char \<Rightarrow> bool" where
  "is_digit ch = (48 \<le> (of_char ch :: nat) \<and> (of_char ch :: nat) \<le> 57)"

fun digits :: "string \<Rightarrow> nat \<Rightarrow> nat option" where
  "digits [] n = Some n"
| "digits (ch # cs) n =
     (if is_digit ch then digits cs (n * 10 + (of_char ch - 48)) else None)"

definition Atoi :: "string \<Rightarrow> go_int option" where
  "Atoi s0 =
     (case s0 of
        [] \<Rightarrow> None
      | c # cs \<Rightarrow>
          let s = (if c = CHR ''-'' \<or> c = CHR ''+'' then cs else s0) in
          if s = [] then None
          else (case digits s 0 of
                  None \<Rightarrow> None
                | Some n \<Rightarrow>
                    let v = (if c = CHR ''-'' then - int n else int n) in
                    if - (2 ^ 63) \<le> v \<and> v < 2 ^ 63 then Some (word_of_int v) else None))"

section \<open>Handlers\<close>

definition handleRoot :: "request \<Rightarrow> TaskStore \<Rightarrow> outcome \<times> TaskStore" where
  "handleRoot r s =
     (if Path r \<noteq> ''/'' then (http_Error MsgNotFound StatusNotFound, s)
      else (Resp (Response StatusOK (Text MsgWelcome)), s))"

definition handleCreateTask :: "request \<Rightarrow> TaskStore \<Rightarrow> outcome \<times> TaskStore" where
  "handleCreateTask r s =
     (if Method r \<noteq> MethodPost
      then (http_Error MsgMethodNotAllowed StatusMethodNotAllowed, s)
      else (case Body r of
              None \<Rightarrow> (http_Error MsgBadBody StatusBadRequest, s)
            | Some decoded \<Rightarrow>
                let task = decoded\<lparr>ID := nextID s\<rparr>;
                    s1 = s\<lparr>tasks := (tasks s)(ID task \<mapsto> task)\<rparr>;
                    s2 = s1\<lparr>nextID := nextID s1 + 1\<rparr>
                in (Resp (Response StatusCreated (JsonTask task)), s2)))"

text \<open>
  \<^verbatim>\<open>for _, task := range taskStore.tasks\<close> visits every entry once, in an order
  the runtime chooses. The order is the parameter \<open>ks\<close>: the keys as the loop meets
  them.
\<close>

definition range_order :: "('k \<rightharpoonup> 'v) \<Rightarrow> 'k list \<Rightarrow> bool" where
  "range_order m ks = (distinct ks \<and> set ks = dom m)"

fun range_append :: "(go_int \<rightharpoonup> Task) \<Rightarrow> go_int list \<Rightarrow> Task slice \<Rightarrow> Task slice" where
  "range_append m [] acc = acc"
| "range_append m (k # ks) acc =
     (case m k of
        Some task \<Rightarrow> range_append m ks (append_slice acc task)
      | None \<Rightarrow> range_append m ks acc)"

definition handleGetTasks :: "go_int list \<Rightarrow> request \<Rightarrow> TaskStore \<Rightarrow> outcome \<times> TaskStore" where
  "handleGetTasks ks r s =
     (if Method r \<noteq> MethodGet
      then (http_Error MsgMethodNotAllowed StatusMethodNotAllowed, s)
      else (Resp (Response StatusOK (JsonTasks (range_append (tasks s) ks make_slice))), s))"

definition handleUpdateTask :: "request \<Rightarrow> TaskStore \<Rightarrow> outcome \<times> TaskStore" where
  "handleUpdateTask r s =
     (if Method r \<noteq> MethodPut
      then (http_Error MsgMethodNotAllowed StatusMethodNotAllowed, s)
      else (case slice_from (Path r) (int (length ''/api/tasks/'')) of
              None \<Rightarrow> (Panic, s)
            | Some idStr \<Rightarrow>
               (case Atoi idStr of
                  None \<Rightarrow> (http_Error MsgBadID StatusBadRequest, s)
                | Some tid \<Rightarrow>
                   (case Body r of
                      None \<Rightarrow> (http_Error MsgBadBody StatusBadRequest, s)
                    | Some decoded \<Rightarrow>
                       (case tasks s tid of
                          Some existingTask \<Rightarrow>
                            let updatedTask = decoded\<lparr>ID := tid\<rparr>;
                                existingTask1 =
                                  (if Title updatedTask \<noteq> ''''
                                   then existingTask\<lparr>Title := Title updatedTask\<rparr>
                                   else existingTask);
                                existingTask2 = existingTask1\<lparr>Completed := Completed updatedTask\<rparr>
                            in (Resp (Response StatusOK (JsonTask existingTask2)),
                                s\<lparr>tasks := (tasks s)(tid \<mapsto> existingTask2)\<rparr>)
                        | None \<Rightarrow> (http_Error MsgTaskNotFound StatusNotFound, s))))))"

definition handleDeleteTask :: "request \<Rightarrow> TaskStore \<Rightarrow> outcome \<times> TaskStore" where
  "handleDeleteTask r s =
     (if Method r \<noteq> MethodDelete
      then (http_Error MsgMethodNotAllowed StatusMethodNotAllowed, s)
      else (case slice_from (Path r) (int (length ''/api/tasks/'')) of
              None \<Rightarrow> (Panic, s)
            | Some idStr \<Rightarrow>
               (case Atoi idStr of
                  None \<Rightarrow> (http_Error MsgBadID StatusBadRequest, s)
                | Some tid \<Rightarrow>
                   (case tasks s tid of
                      Some _ \<Rightarrow>
                        (Resp (Response StatusNoContent NoBody),
                         s\<lparr>tasks := (tasks s)(tid := None)\<rparr>)
                    | None \<Rightarrow> (http_Error MsgTaskNotFound StatusNotFound, s)))))"

definition handleMarkTaskAsDone :: "request \<Rightarrow> TaskStore \<Rightarrow> outcome \<times> TaskStore" where
  "handleMarkTaskAsDone r s =
     (if Method r \<noteq> MethodPut
      then (http_Error MsgMethodNotAllowed StatusMethodNotAllowed, s)
      else (case slice_range (Path r) (int (length ''/api/tasks/''))
                   (int (length (Path r)) - int (length ''/done'')) of
              None \<Rightarrow> (Panic, s)
            | Some idStr \<Rightarrow>
               (case Atoi idStr of
                  None \<Rightarrow> (http_Error MsgBadID StatusBadRequest, s)
                | Some tid \<Rightarrow>
                   (case tasks s tid of
                      Some task \<Rightarrow>
                        let task1 = task\<lparr>Completed := True\<rparr>
                        in (Resp (Response StatusOK (JsonTask task1)),
                            s\<lparr>tasks := (tasks s)(tid \<mapsto> task1)\<rparr>)
                    | None \<Rightarrow> (http_Error MsgTaskNotFound StatusNotFound, s)))))"

section \<open>Routing\<close>

text \<open>The function literal registered in \<^verbatim>\<open>main\<close> for the pattern \<^verbatim>\<open>/api/tasks\<close>.\<close>

definition route_tasks :: "go_int list \<Rightarrow> request \<Rightarrow> TaskStore \<Rightarrow> outcome \<times> TaskStore" where
  "route_tasks ks r s =
     (if Method r = MethodGet then handleGetTasks ks r s
      else if Method r = MethodPost then handleCreateTask r s
      else (http_Error MsgMethodNotAllowed StatusMethodNotAllowed, s))"

text \<open>
  The function literal registered for the pattern \<^verbatim>\<open>/api/tasks/\<close>. The \<^verbatim>\<open>&&\<close>
  evaluates its right operand, a slice expression, only when the length test holds.
\<close>

definition route_task :: "request \<Rightarrow> TaskStore \<Rightarrow> outcome \<times> TaskStore" where
  "route_task r s =
     (if Method r = MethodPut then
        (if int (length (Path r)) > int (length ''/api/tasks/'') then
           (case slice_from (Path r) (int (length (Path r)) - int (length ''/done'')) of
              None \<Rightarrow> (Panic, s)
            | Some suffix \<Rightarrow>
                if suffix = ''/done'' then handleMarkTaskAsDone r s
                else handleUpdateTask r s)
         else handleUpdateTask r s)
      else if Method r = MethodDelete then handleDeleteTask r s
      else (http_Error MsgMethodNotAllowed StatusMethodNotAllowed, s))"

text \<open>
  \<^verbatim>\<open>http.HandleFunc\<close> registers three patterns on the default \<^verbatim>\<open>ServeMux\<close>:
  \<^verbatim>\<open>/api/tasks\<close> matches that path alone, \<^verbatim>\<open>/api/tasks/\<close> matches every path
  below it, and \<^verbatim>\<open>/\<close> matches whatever is left. (The multiplexer redirects a
  path that is not in canonical form before any handler runs; \<open>serve\<close> is the
  dispatch of a canonical path.)
\<close>

definition serve :: "go_int list \<Rightarrow> request \<Rightarrow> TaskStore \<Rightarrow> outcome \<times> TaskStore" where
  "serve ks r s =
     (if Path r = ''/api/tasks'' then route_tasks ks r s
      else if take (length ''/api/tasks/'') (Path r) = ''/api/tasks/'' then route_task r s
      else handleRoot r s)"

text \<open>
  A path is in canonical form, as the multiplexer's \<^verbatim>\<open>cleanPath\<close> leaves it, when
  it starts with a slash and no segment between two slashes is empty, \<^verbatim>\<open>.\<close> or
  \<^verbatim>\<open>..\<close>; the path may end in a slash.
\<close>

fun segments :: "string \<Rightarrow> string \<Rightarrow> string list" where
  "segments [] cur = [cur]"
| "segments (c # cs) cur =
     (if c = CHR ''/'' then cur # segments cs [] else segments cs (cur @ [c]))"

definition plain_segment :: "string \<Rightarrow> bool" where
  "plain_segment seg = (seg \<noteq> '''' \<and> seg \<noteq> ''.'' \<and> seg \<noteq> ''..'')"

definition canonical :: "string \<Rightarrow> bool" where
  "canonical p =
     (case segments p [] of
        [] \<Rightarrow> False
      | first # rest \<Rightarrow>
          first = '''' \<and> rest \<noteq> [] \<and> list_all plain_segment (butlast rest)
          \<and> (last rest = '''' \<or> plain_segment (last rest)))"

section \<open>Runs of the server\<close>








section \<open>Slicing lemmas\<close>

lemma slice_from_prefix:
  "slice_from (p @ q) (int (length p)) = Some q"
  by (simp add: slice_from_def)

lemma slice_range_middle:
  "slice_range (p @ q @ e) (int (length p)) (int (length (p @ q @ e)) - int (length e)) = Some q"
  by (simp add: slice_range_def)

section \<open>Update\<close>

text \<open>
  C1. For a task present in the store, a \<^verbatim>\<open>PUT /api/tasks/{id}\<close> whose body
  decodes replaces \<open>completed\<close> with the new value unconditionally, replaces
  \<open>title\<close> only when the new title is non-empty, stores the result under the
  same key and returns it with status 200.
\<close>

theorem update_existing_task:
  assumes "Method r = MethodPut"
    and "Path r = ''/api/tasks/'' @ idStr"
    and "Atoi idStr = Some tid"
    and "Body r = Some upd"
    and "tasks s tid = Some t"
  shows "handleUpdateTask r s =
           (Resp (Response 200
              (JsonTask (t\<lparr>Title := (if Title upd = '''' then Title t else Title upd),
                           Completed := Completed upd\<rparr>))),
            s\<lparr>tasks := (tasks s)(tid \<mapsto>
                 t\<lparr>Title := (if Title upd = '''' then Title t else Title upd),
                   Completed := Completed upd\<rparr>)\<rparr>)"
proof -
  have "slice_from (Path r) (int (length ''/api/tasks/'')) = Some idStr"
    unfolding assms(2) by (rule slice_from_prefix)
  with assms show ?thesis
    by (simp add: handleUpdateTask_def StatusOK_def Let_def)
qed

theorem update_existing_task_witness:
  "Method \<lparr>Method = ''PUT'', Path = ''/api/tasks/1'',
            Body = Some \<lparr>ID = 0, Title = '''', Completed = True\<rparr>\<rparr> = MethodPut
   \<and> Atoi ''1'' = Some 1
   \<and> handleUpdateTask
        \<lparr>Method = ''PUT'', Path = ''/api/tasks/1'',
         Body = Some \<lparr>ID = 0, Title = '''', Completed = True\<rparr>\<rparr>
        \<lparr>tasks = [1 \<mapsto> \<lparr>ID = 1, Title = ''buy milk'', Completed = False\<rparr>], nextID = 2\<rparr>
      = (Resp (Response 200 (JsonTask \<lparr>ID = 1, Title = ''buy milk'', Completed = True\<rparr>)),
         \<lparr>tasks = [1 \<mapsto> \<lparr>ID = 1, Title = ''buy milk'', Completed = True\<rparr>], nextID = 2\<rparr>)"
  using update_existing_task
    [of "\<lparr>Method = ''PUT'', Path = ''/api/tasks/1'',
          Body = Some \<lparr>ID = 0, Title = '''', Completed = True\<rparr>\<rparr>"
        "''1''" 1 "\<lparr>ID = 0, Title = '''', Completed = True\<rparr>"
        "\<lparr>tasks = [1 \<mapsto> \<lparr>ID = 1, Title = ''buy milk'', Completed = False\<rparr>], nextID = 2\<rparr>"
        "\<lparr>ID = 1, Title = ''buy milk'', Completed = False\<rparr>"]
  by (simp add: MethodPut_def Atoi_def is_digit_def)

section \<open>MarkDone\<close>

text \<open>
  C4. For an id present in the store, \<^verbatim>\<open>PUT /api/tasks/{id}/done\<close> sets
  \<open>completed\<close> to true, leaves the title as it was, and is idempotent: served a
  second time on the store the first call left, it gives the same response and the
  same store.
\<close>

theorem mark_done_idempotent:
  assumes "Method r = MethodPut"
    and "Path r = ''/api/tasks/'' @ idStr @ ''/done''"
    and "Atoi idStr = Some tid"
    and "tasks s tid = Some t"
  shows "handleMarkTaskAsDone r s =
           (Resp (Response 200 (JsonTask (t\<lparr>Completed := True\<rparr>))),
            s\<lparr>tasks := (tasks s)(tid \<mapsto> t\<lparr>Completed := True\<rparr>)\<rparr>)
         \<and> Title (t\<lparr>Completed := True\<rparr>) = Title t
         \<and> handleMarkTaskAsDone r (snd (handleMarkTaskAsDone r s)) = handleMarkTaskAsDone r s"
proof -
  have sl: "slice_range (Path r) (int (length ''/api/tasks/''))
              (int (length (Path r)) - int (length ''/done'')) = Some idStr"
    unfolding assms(2) by (rule slice_range_middle)
  have step: "handleMarkTaskAsDone r s' =
           (Resp (Response 200 (JsonTask (t'\<lparr>Completed := True\<rparr>))),
            s'\<lparr>tasks := (tasks s')(tid \<mapsto> t'\<lparr>Completed := True\<rparr>)\<rparr>)"
    if "tasks s' tid = Some t'" for s' t'
    using that sl assms(1,3)
    by (simp add: handleMarkTaskAsDone_def StatusOK_def Let_def)
  have one: "handleMarkTaskAsDone r s =
           (Resp (Response 200 (JsonTask (t\<lparr>Completed := True\<rparr>))),
            s\<lparr>tasks := (tasks s)(tid \<mapsto> t\<lparr>Completed := True\<rparr>)\<rparr>)"
    using assms(4) by (rule step)
  have two: "handleMarkTaskAsDone r (s\<lparr>tasks := (tasks s)(tid \<mapsto> t\<lparr>Completed := True\<rparr>)\<rparr>) =
           (Resp (Response 200 (JsonTask (t\<lparr>Completed := True\<rparr>))),
            s\<lparr>tasks := (tasks s)(tid \<mapsto> t\<lparr>Completed := True\<rparr>)\<rparr>)"
    using step [of "s\<lparr>tasks := (tasks s)(tid \<mapsto> t\<lparr>Completed := True\<rparr>)\<rparr>" "t\<lparr>Completed := True\<rparr>"]
    by simp
  show ?thesis using one two by simp
qed

theorem mark_done_idempotent_witness:
  "Atoi ''1'' = Some 1
   \<and> handleMarkTaskAsDone
        \<lparr>Method = ''PUT'', Path = ''/api/tasks/1/done'', Body = None\<rparr>
        \<lparr>tasks = [1 \<mapsto> \<lparr>ID = 1, Title = ''buy milk'', Completed = False\<rparr>], nextID = 2\<rparr>
      = (Resp (Response 200 (JsonTask \<lparr>ID = 1, Title = ''buy milk'', Completed = True\<rparr>)),
         \<lparr>tasks = [1 \<mapsto> \<lparr>ID = 1, Title = ''buy milk'', Completed = True\<rparr>], nextID = 2\<rparr>)
   \<and> handleMarkTaskAsDone
        \<lparr>Method = ''PUT'', Path = ''/api/tasks/1/done'', Body = None\<rparr>
        \<lparr>tasks = [1 \<mapsto> \<lparr>ID = 1, Title = ''buy milk'', Completed = True\<rparr>], nextID = 2\<rparr>
      = (Resp (Response 200 (JsonTask \<lparr>ID = 1, Title = ''buy milk'', Completed = True\<rparr>)),
         \<lparr>tasks = [1 \<mapsto> \<lparr>ID = 1, Title = ''buy milk'', Completed = True\<rparr>], nextID = 2\<rparr>)"
  using mark_done_idempotent
    [of "\<lparr>Method = ''PUT'', Path = ''/api/tasks/1/done'', Body = None\<rparr>"
        "''1''" 1
        "\<lparr>tasks = [1 \<mapsto> \<lparr>ID = 1, Title = ''buy milk'', Completed = False\<rparr>], nextID = 2\<rparr>"
        "\<lparr>ID = 1, Title = ''buy milk'', Completed = False\<rparr>"]
  by (auto simp add: MethodPut_def Atoi_def is_digit_def)

section \<open>Absent ids\<close>

text \<open>
  C6. For an id with no task in the store, Update (with a body that decodes),
  MarkDone and Delete each answer 404 and return the store as it was: neither the
  mapping nor the id counter changes.
\<close>

theorem missing_id_not_found:
  assumes "Atoi idStr = Some tid"
    and "tasks s tid = None"
  shows "handleUpdateTask
           \<lparr>Method = MethodPut, Path = ''/api/tasks/'' @ idStr, Body = Some upd\<rparr> s
           = (Resp (Response 404 (Text MsgTaskNotFound)), s)
       \<and> handleMarkTaskAsDone
           \<lparr>Method = MethodPut, Path = ''/api/tasks/'' @ idStr @ ''/done'', Body = b\<rparr> s
           = (Resp (Response 404 (Text MsgTaskNotFound)), s)
       \<and> handleDeleteTask
           \<lparr>Method = MethodDelete, Path = ''/api/tasks/'' @ idStr, Body = b\<rparr> s
           = (Resp (Response 404 (Text MsgTaskNotFound)), s)"
proof -
  have a: "slice_from (''/api/tasks/'' @ idStr) (int (length ''/api/tasks/'')) = Some idStr"
    by (rule slice_from_prefix)
  have b: "slice_range (''/api/tasks/'' @ idStr @ ''/done'') (int (length ''/api/tasks/''))
              (int (length (''/api/tasks/'' @ idStr @ ''/done'')) - int (length ''/done'')) = Some idStr"
    by (rule slice_range_middle)
  have u: "handleUpdateTask
           \<lparr>Method = MethodPut, Path = ''/api/tasks/'' @ idStr, Body = Some upd\<rparr> s
           = (Resp (Response 404 (Text MsgTaskNotFound)), s)"
    using a assms by (simp add: handleUpdateTask_def http_Error_def StatusNotFound_def)
  have m: "handleMarkTaskAsDone
           \<lparr>Method = MethodPut, Path = ''/api/tasks/'' @ idStr @ ''/done'', Body = b\<rparr> s
           = (Resp (Response 404 (Text MsgTaskNotFound)), s)"
    using b assms by (simp add: handleMarkTaskAsDone_def http_Error_def StatusNotFound_def)
  have d: "handleDeleteTask
           \<lparr>Method = MethodDelete, Path = ''/api/tasks/'' @ idStr, Body = b\<rparr> s
           = (Resp (Response 404 (Text MsgTaskNotFound)), s)"
    using a assms by (simp add: handleDeleteTask_def http_Error_def StatusNotFound_def)
  from u m d show ?thesis by simp
qed

theorem missing_id_not_found_witness:
  "Atoi ''999'' = Some 999
   \<and> tasks NewTaskStore 999 = None
   \<and> handleUpdateTask
       \<lparr>Method = ''PUT'', Path = ''/api/tasks/999'',
        Body = Some \<lparr>ID = 0, Title = ''x'', Completed = True\<rparr>\<rparr> NewTaskStore
       = (Resp (Response 404 (Text MsgTaskNotFound)), NewTaskStore)
   \<and> handleMarkTaskAsDone
       \<lparr>Method = ''PUT'', Path = ''/api/tasks/999/done'', Body = None\<rparr> NewTaskStore
       = (Resp (Response 404 (Text MsgTaskNotFound)), NewTaskStore)
   \<and> handleDeleteTask
       \<lparr>Method = ''DELETE'', Path = ''/api/tasks/999'', Body = None\<rparr> NewTaskStore
       = (Resp (Response 404 (Text MsgTaskNotFound)), NewTaskStore)"
  using missing_id_not_found [of "''999''" 999 NewTaskStore "\<lparr>ID = 0, Title = ''x'', Completed = True\<rparr>" None]
  by (simp add: Atoi_def is_digit_def NewTaskStore_def MethodPut_def MethodDelete_def)

section \<open>Create\<close>

text \<open>
  C7. A \<^verbatim>\<open>POST /api/tasks\<close> whose body fails to decode is answered with 400 and the
  store is returned as it was: no task is inserted and the counter is not advanced,
  so the next Create is given the id it would have been given anyway.
\<close>

theorem create_bad_body_leaves_store:
  assumes "Method r = MethodPost"
    and "Path r = ''/api/tasks''"
    and "Body r = None"
  shows "serve ks r s = (Resp (Response 400 (Text MsgBadBody)), s)
       \<and> handleCreateTask r s = (Resp (Response 400 (Text MsgBadBody)), s)
       \<and> fst (handleCreateTask \<lparr>Method = MethodPost, Path = ''/api/tasks'', Body = Some t\<rparr>
                 (snd (serve ks r s)))
           = Resp (Response 201 (JsonTask (t\<lparr>ID := nextID s\<rparr>)))"
  using assms
  by (simp add: serve_def route_tasks_def handleCreateTask_def http_Error_def Let_def
      MethodPost_def MethodGet_def StatusBadRequest_def StatusCreated_def)

theorem create_bad_body_leaves_store_witness:
  "serve [] \<lparr>Method = ''POST'', Path = ''/api/tasks'', Body = None\<rparr> NewTaskStore
     = (Resp (Response 400 (Text MsgBadBody)), NewTaskStore)
   \<and> fst (handleCreateTask
            \<lparr>Method = ''POST'', Path = ''/api/tasks'',
             Body = Some \<lparr>ID = 0, Title = ''buy milk'', Completed = False\<rparr>\<rparr>
            (snd (serve [] \<lparr>Method = ''POST'', Path = ''/api/tasks'', Body = None\<rparr> NewTaskStore)))
     = Resp (Response 201 (JsonTask \<lparr>ID = 1, Title = ''buy milk'', Completed = False\<rparr>))"
  using create_bad_body_leaves_store
    [of "\<lparr>Method = ''POST'', Path = ''/api/tasks'', Body = None\<rparr>" "[]" NewTaskStore
        "\<lparr>ID = 0, Title = ''buy milk'', Completed = False\<rparr>"]
  by (auto simp add: MethodPost_def NewTaskStore_def)

text \<open>
  C10. Create ignores the id the client sent: whatever \<^verbatim>\<open>ID\<close> the decoded body
  carries, the task stored and returned has the store's current \<^verbatim>\<open>nextID\<close> as its id,
  it is stored under that key, and the counter advances by one.
\<close>

theorem create_assigns_counter_id:
  assumes "Method r = MethodPost"
    and "Body r = Some decoded"
  shows "handleCreateTask r s =
           (Resp (Response 201 (JsonTask (decoded\<lparr>ID := nextID s\<rparr>))),
            s\<lparr>tasks := (tasks s)(nextID s \<mapsto> decoded\<lparr>ID := nextID s\<rparr>),
              nextID := nextID s + 1\<rparr>)"
  using assms
  by (simp add: handleCreateTask_def Let_def StatusCreated_def)

theorem create_assigns_counter_id_witness:
  "handleCreateTask
     \<lparr>Method = ''POST'', Path = ''/api/tasks'',
      Body = Some \<lparr>ID = 42, Title = ''buy milk'', Completed = False\<rparr>\<rparr> NewTaskStore
   = (Resp (Response 201 (JsonTask \<lparr>ID = 1, Title = ''buy milk'', Completed = False\<rparr>)),
      \<lparr>tasks = [1 \<mapsto> \<lparr>ID = 1, Title = ''buy milk'', Completed = False\<rparr>], nextID = 2\<rparr>)"
  using create_assigns_counter_id
    [of "\<lparr>Method = ''POST'', Path = ''/api/tasks'',
          Body = Some \<lparr>ID = 42, Title = ''buy milk'', Completed = False\<rparr>\<rparr>"
        "\<lparr>ID = 42, Title = ''buy milk'', Completed = False\<rparr>" NewTaskStore]
  by (simp add: MethodPost_def NewTaskStore_def)

section \<open>ListAll\<close>

lemma range_append_Slice:
  "set ks \<subseteq> dom m \<Longrightarrow>
     range_append m ks (Slice acc) = Slice (acc @ map (\<lambda>k. the (m k)) ks)"
  by (induction ks arbitrary: acc) auto

text \<open>
  C8. For every order in which the runtime may visit the map, \<^verbatim>\<open>GET /api/tasks\<close>
  answers 200 with a non-nil slice holding exactly the tasks of the mapping, each
  once; the encoder writes it as a JSON array. When the store holds no task (as
  right after \<^verbatim>\<open>NewTaskStore\<close>) the slice is empty and is written as the empty
  array, not as \<^verbatim>\<open>null\<close>.
\<close>

theorem list_all_tasks:
  assumes "Method r = MethodGet"
    and "range_order (tasks s) ks"
  shows "handleGetTasks ks r s =
           (Resp (Response 200 (JsonTasks (Slice (map (\<lambda>k. the (tasks s k)) ks)))), s)
       \<and> mset (map (\<lambda>k. the (tasks s k)) ks)
           = image_mset (\<lambda>k. the (tasks s k)) (mset_set (dom (tasks s)))
       \<and> json_of_payload (JsonTasks (Slice (map (\<lambda>k. the (tasks s k)) ks)))
           = Some (JArray (map json_of_Task (map (\<lambda>k. the (tasks s k)) ks)))
       \<and> (dom (tasks s) = {} \<longrightarrow>
            handleGetTasks ks r s = (Resp (Response 200 (JsonTasks (Slice []))), s)
            \<and> json_of_payload (JsonTasks (Slice [])) = Some (JArray []))"
proof -
  from assms(2) have d: "distinct ks" and e: "set ks = dom (tasks s)"
    by (simp_all add: range_order_def)
  have g: "handleGetTasks ks r s =
           (Resp (Response 200 (JsonTasks (Slice (map (\<lambda>k. the (tasks s k)) ks)))), s)"
    using assms(1) e range_append_Slice [of ks "tasks s" "[]"]
    by (simp add: handleGetTasks_def make_slice_def StatusOK_def)
  have m: "mset (map (\<lambda>k. the (tasks s k)) ks)
           = image_mset (\<lambda>k. the (tasks s k)) (mset_set (dom (tasks s)))"
    using d e mset_set_set [of ks] by simp
  have z: "dom (tasks s) = {} \<Longrightarrow> ks = []"
    using e by simp
  show ?thesis using g m z by auto
qed

theorem list_all_tasks_witness:
  "range_order (tasks NewTaskStore) []
   \<and> handleGetTasks [] \<lparr>Method = ''GET'', Path = ''/api/tasks'', Body = None\<rparr> NewTaskStore
       = (Resp (Response 200 (JsonTasks (Slice []))), NewTaskStore)
   \<and> json_of_payload (JsonTasks (Slice [])) = Some (JArray [])
   \<and> range_order
        [1 \<mapsto> \<lparr>ID = 1, Title = ''a'', Completed = False\<rparr>,
         2 \<mapsto> \<lparr>ID = 2, Title = ''b'', Completed = True\<rparr>] [2, 1 :: go_int]
   \<and> handleGetTasks [2, 1] \<lparr>Method = ''GET'', Path = ''/api/tasks'', Body = None\<rparr>
        \<lparr>tasks = [1 \<mapsto> \<lparr>ID = 1, Title = ''a'', Completed = False\<rparr>,
                  2 \<mapsto> \<lparr>ID = 2, Title = ''b'', Completed = True\<rparr>], nextID = 3\<rparr>
       = (Resp (Response 200 (JsonTasks (Slice
            [\<lparr>ID = 2, Title = ''b'', Completed = True\<rparr>,
             \<lparr>ID = 1, Title = ''a'', Completed = False\<rparr>]))),
          \<lparr>tasks = [1 \<mapsto> \<lparr>ID = 1, Title = ''a'', Completed = False\<rparr>,
                    2 \<mapsto> \<lparr>ID = 2, Title = ''b'', Completed = True\<rparr>], nextID = 3\<rparr>)"
proof -
  have a: "range_order (tasks NewTaskStore) []"
    by (simp add: range_order_def NewTaskStore_def)
  have b: "range_order
        (tasks \<lparr>tasks = [1 \<mapsto> \<lparr>ID = 1, Title = ''a'', Completed = False\<rparr>,
                  2 \<mapsto> \<lparr>ID = 2, Title = ''b'', Completed = True\<rparr>], nextID = 3\<rparr>) [2, 1 :: go_int]"
    by (auto simp add: range_order_def)
  have g: "Method \<lparr>Method = ''GET'', Path = ''/api/tasks'', Body = None\<rparr> = MethodGet"
    by (simp add: MethodGet_def)
  show ?thesis
    using list_all_tasks [OF g a] list_all_tasks [OF g b] a b
    by (simp add: NewTaskStore_def)
qed

section \<open>Methods\<close>

text \<open>
  The root handler has no method test: a \<^verbatim>\<open>POST /\<close> is answered with the welcome
  text and status 200, not with 405.
\<close>

theorem root_answers_post_with_welcome:
  "serve [] \<lparr>Method = ''POST'', Path = ''/'', Body = None\<rparr> NewTaskStore
     = (Resp (Response 200 (Text MsgWelcome)), NewTaskStore)"
  by (simp add: serve_def handleRoot_def StatusOK_def)

text \<open>The default branches of the two function literals registered in \<^verbatim>\<open>main\<close>.\<close>

lemma closures_default_405:
  "Method r \<noteq> MethodGet \<Longrightarrow> Method r \<noteq> MethodPost \<Longrightarrow>
     route_tasks ks r s = (Resp (Response 405 (Text MsgMethodNotAllowed)), s)"
  "Method r \<noteq> MethodPut \<Longrightarrow> Method r \<noteq> MethodDelete \<Longrightarrow>
     route_task r s = (Resp (Response 405 (Text MsgMethodNotAllowed)), s)"
  by (simp_all add: route_tasks_def route_task_def http_Error_def StatusMethodNotAllowed_def)

text \<open>
  C9 (as the code has it). A request for \<^verbatim>\<open>/api/tasks\<close> with a method other
  than GET and POST is answered with 405, and a request for a canonical path below
  \<^verbatim>\<open>/api/tasks/\<close> with a method other than PUT and DELETE is answered with 405.
  A request for the root path \<^verbatim>\<open>/\<close> is answered with 200 and the welcome text
  whatever its method.
\<close>

theorem other_methods_not_allowed:
  "(Path r = ''/api/tasks'' \<and> Method r \<noteq> MethodGet \<and> Method r \<noteq> MethodPost \<longrightarrow>
      serve ks r s = (Resp (Response 405 (Text MsgMethodNotAllowed)), s))
   \<and> (Path r = ''/api/tasks/'' @ rest \<and> canonical (Path r)
        \<and> Method r \<noteq> MethodPut \<and> Method r \<noteq> MethodDelete \<longrightarrow>
      serve ks r s = (Resp (Response 405 (Text MsgMethodNotAllowed)), s))
   \<and> (Path r = ''/'' \<longrightarrow>
      serve ks r s = (Resp (Response 200 (Text MsgWelcome)), s))"
proof -
  have a: "serve ks r s = (Resp (Response 405 (Text MsgMethodNotAllowed)), s)"
    if "Path r = ''/api/tasks''" "Method r \<noteq> MethodGet" "Method r \<noteq> MethodPost"
    using that closures_default_405(1) [of r ks s] by (simp add: serve_def)
  have b: "serve ks r s = (Resp (Response 405 (Text MsgMethodNotAllowed)), s)"
    if "Path r = ''/api/tasks/'' @ rest" "Method r \<noteq> MethodPut" "Method r \<noteq> MethodDelete"
    using that closures_default_405(2) [of r s] by (simp add: serve_def)
  have c: "serve ks r s = (Resp (Response 200 (Text MsgWelcome)), s)" if "Path r = ''/''"
    using that by (simp add: serve_def handleRoot_def StatusOK_def)
  from a b c show ?thesis by blast
qed

theorem other_methods_not_allowed_witness:
  "canonical ''/api/tasks/1''
   \<and> serve [] \<lparr>Method = ''DELETE'', Path = ''/api/tasks'', Body = None\<rparr> NewTaskStore
     = (Resp (Response 405 (Text MsgMethodNotAllowed)), NewTaskStore)
   \<and> serve [] \<lparr>Method = ''POST'', Path = ''/api/tasks/1'', Body = None\<rparr> NewTaskStore
     = (Resp (Response 405 (Text MsgMethodNotAllowed)), NewTaskStore)
   \<and> serve [] \<lparr>Method = ''DELETE'', Path = ''/'', Body = None\<rparr> NewTaskStore
     = (Resp (Response 200 (Text MsgWelcome)), NewTaskStore)"
proof -
  have k: "canonical ''/api/tasks/1''"
    by (simp add: canonical_def plain_segment_def)
  show ?thesis
    using k
      other_methods_not_allowed
        [of "\<lparr>Method = ''DELETE'', Path = ''/api/tasks'', Body = None\<rparr>" "[]" NewTaskStore "''1''"]
      other_methods_not_allowed
        [of "\<lparr>Method = ''POST'', Path = ''/api/tasks/1'', Body = None\<rparr>" "[]" NewTaskStore "''1''"]
      other_methods_not_allowed
        [of "\<lparr>Method = ''DELETE'', Path = ''/'', Body = None\<rparr>" "[]" NewTaskStore "''1''"]
    by (simp add: MethodGet_def MethodPost_def MethodPut_def MethodDelete_def)
qed

section \<open>The \<^verbatim>\<open>/done\<close> suffix\<close>

lemma slice_from_suffix:
  "slice_from (p @ q @ e) (int (length (p @ q @ e)) - int (length e)) = Some e"
  by (simp add: slice_from_def)

text \<open>
  Whenever the path is the prefix, a segment and the suffix, the id is cut out within
  bounds, and a segment that \<^verbatim>\<open>Atoi\<close> rejects is answered with 400.
\<close>

lemma mark_done_bad_segment:
  assumes "Atoi seg = None"
  shows "route_task \<lparr>Method = MethodPut, Path = ''/api/tasks/'' @ seg @ ''/done'', Body = b\<rparr> s
           = (Resp (Response 400 (Text MsgBadID)), s)"
proof -
  have a: "slice_from (''/api/tasks/'' @ seg @ ''/done'')
             (int (length (''/api/tasks/'' @ seg @ ''/done'')) - int (length ''/done'')) = Some ''/done''"
    by (rule slice_from_suffix)
  have b: "slice_range (''/api/tasks/'' @ seg @ ''/done'') (int (length ''/api/tasks/''))
             (int (length (''/api/tasks/'' @ seg @ ''/done'')) - int (length ''/done'')) = Some seg"
    by (rule slice_range_middle)
  have c: "handleMarkTaskAsDone
             \<lparr>Method = MethodPut, Path = ''/api/tasks/'' @ seg @ ''/done'', Body = b\<rparr> s
           = (Resp (Response 400 (Text MsgBadID)), s)"
    using b assms by (simp add: handleMarkTaskAsDone_def http_Error_def StatusBadRequest_def)
  show ?thesis using a c by (simp add: route_task_def)
qed

lemma mark_done_in_bounds:
  "fst (route_task \<lparr>Method = MethodPut, Path = ''/api/tasks/'' @ seg @ ''/done'', Body = b\<rparr> s)
     \<noteq> Panic"
proof -
  have a: "slice_from (''/api/tasks/'' @ seg @ ''/done'')
             (int (length (''/api/tasks/'' @ seg @ ''/done'')) - int (length ''/done'')) = Some ''/done''"
    by (rule slice_from_suffix)
  have b: "slice_range (''/api/tasks/'' @ seg @ ''/done'') (int (length ''/api/tasks/''))
             (int (length (''/api/tasks/'' @ seg @ ''/done'')) - int (length ''/done'')) = Some seg"
    by (rule slice_range_middle)
  have c: "fst (handleMarkTaskAsDone
             \<lparr>Method = MethodPut, Path = ''/api/tasks/'' @ seg @ ''/done'', Body = b\<rparr> s) \<noteq> Panic"
    using b by (simp add: handleMarkTaskAsDone_def http_Error_def Let_def split: option.splits)
  show ?thesis using a c by (simp add: route_task_def)
qed

text \<open>
  A path with the prefix and the suffix is either such a path or the one path in
  which the two overlap.
\<close>

lemma drop_append_suffix:
  "n \<le> length q \<Longrightarrow> drop (length (a @ q) - n) (a @ q) = drop (length q - n) q"
  by simp

lemma done_path_cases:
  assumes pre: "take (length ''/api/tasks/'') p = ''/api/tasks/''"
    and suf: "drop (length p - length ''/done'') p = ''/done''"
  shows "p = ''/api/tasks/done'' \<or> (\<exists>seg. p = ''/api/tasks/'' @ seg @ ''/done'')"
proof -
  obtain q where p: "p = ''/api/tasks/'' @ q"
    using pre append_take_drop_id [of "length ''/api/tasks/''" p] by metis
  show ?thesis
  proof (cases "5 \<le> length q")
    case True
    then have "drop (length p - length ''/done'') p = drop (length q - 5) q"
      unfolding p using drop_append_suffix [of 5 q "''/api/tasks/''"] by simp
    with suf have "q = take (length q - 5) q @ ''/done''"
      using append_take_drop_id [of "length q - 5" q] by simp
    with p show ?thesis by metis
  next
    case False
    then consider "length q = 0" | "length q = 1" | "length q = 2" | "length q = 3" | "length q = 4"
      by linarith
    then show ?thesis
    proof cases
      case 1
      with suf p show ?thesis by simp
    next
      case 2
      then obtain a where "q = [a]" by (auto simp add: length_Suc_conv numeral_eq_Suc)
      with suf p show ?thesis by simp
    next
      case 3
      then obtain a b where "q = [a, b]" by (auto simp add: length_Suc_conv numeral_eq_Suc)
      with suf p show ?thesis by simp
    next
      case 4
      then obtain a b c where "q = [a, b, c]" by (auto simp add: length_Suc_conv numeral_eq_Suc)
      with suf p show ?thesis by simp
    next
      case 5
      then obtain a b c d where "q = [a, b, c, d]" by (auto simp add: length_Suc_conv numeral_eq_Suc)
      with suf p show ?thesis by simp
    qed
  qed
qed

text \<open>
  C5. The claim holds for every such path but one. In \<^verbatim>\<open>/api/tasks/done\<close> the
  suffix \<^verbatim>\<open>/done\<close> starts at the last character of the prefix: the router's test
  sends the request to \<^verbatim>\<open>handleMarkTaskAsDone\<close>, whose slice expression is
  \<^verbatim>\<open>Path[11:10]\<close>, and the handler panics instead of answering 400. The store is
  untouched.
\<close>

theorem mark_done_empty_segment_panics:
  "serve ks \<lparr>Method = ''PUT'', Path = ''/api/tasks/done'', Body = b\<rparr> s = (Panic, s)"
  by (simp add: serve_def route_task_def handleMarkTaskAsDone_def slice_from_def
      slice_range_def MethodPut_def)

section \<open>The id counter\<close>
























end
